theory Spec2Isabelle
  imports Main "HOL-Library.Word"
begin

section \<open>The minimal application: \<open>app_main\<close> and the task it creates\<close>

text \<open>
  The repository's source is one file, \<^verbatim>\<open>apps/minimal/main/main.cpp\<close>:
  \<^verbatim>\<open>
  static const char* TAG = "app";

  extern "C"
  void app_main(void) {
      xTaskCreate(
          [](void*) {
              while (true) {
                  ESP_LOGI(TAG, "Hello from C++ FreeRTOS task");
                  vTaskDelay(pdMS_TO_TICKS(1000));
              }
          },
          "blinker", 4096, nullptr, tskIDLE_PRIORITY + 1, nullptr
      );
  }
  \<close>
  Everything it calls (\<^verbatim>\<open>xTaskCreate\<close>, \<^verbatim>\<open>ESP_LOGI\<close>, \<^verbatim>\<open>vTaskDelay\<close>,
  \<^verbatim>\<open>pdMS_TO_TICKS\<close>, \<^verbatim>\<open>tskIDLE_PRIORITY\<close>) comes from the FreeRTOS and ESP-IDF
  headers, which are not part of the repository.
\<close>

subsection \<open>What the headers provide\<close>

type_synonym TickType_t = "32 word"
type_synonym UBaseType_t = "32 word"

text \<open>
  The macro \<^verbatim>\<open>pdMS_TO_TICKS\<close> and the constant \<^verbatim>\<open>tskIDLE_PRIORITY\<close> are defined by
  the FreeRTOS configuration of the build, so the model takes them as parameters.
\<close>

record platform =
  pdMS_TO_TICKS :: "TickType_t \<Rightarrow> TickType_t"
  tskIDLE_PRIORITY :: UBaseType_t


text \<open>A \<^verbatim>\<open>void*\<close> or \<^verbatim>\<open>TaskHandle_t*\<close> argument: the null pointer or an address.\<close>

datatype pointer = nullptr | Address nat

text \<open>
  The program acts on the outside world only through calls of the kernel and logging
  interfaces. A call is recorded with the arguments that are plain data (the task code
  passed to \<^verbatim>\<open>xTaskCreate\<close> is kept in the task it creates).
\<close>

datatype event =
    Call_xTaskCreate string "32 word" pointer UBaseType_t pointer
  | Call_ESP_LOGI string string
  | Call_vTaskDelay TickType_t

text \<open>
  A task function runs with its \<^verbatim>\<open>void*\<close> argument. Run with fuel \<open>n\<close> (the number of
  loop iterations it may start) it yields the calls it has made, in order, and \<open>Some ()\<close>
  when it has returned, \<open>None\<close> when it is still running.
\<close>

type_synonym TaskFunction_t = "pointer \<Rightarrow> nat \<Rightarrow> event list \<times> unit option"

datatype BaseType_t = pdPASS | errCOULD_NOT_ALLOCATE_REQUIRED_MEMORY

record task =
  pvTaskCode :: TaskFunction_t
  pcName :: string
  usStackDepth :: "32 word"
  pvParameters :: pointer
  uxPriority :: UBaseType_t

text \<open>
  The kernel as the program sees it: whether its heap can still hold a task (decided by
  the environment), the tasks that exist, the task handles it has stored through
  \<^verbatim>\<open>pxCreatedTask\<close> pointers, and every call received so far.
\<close>

record kernel =
  heap_exhausted :: bool
  tasks :: "task list"
  handles :: "nat \<rightharpoonup> nat"
  trace :: "event list"

text \<open>
  \<^verbatim>\<open>xTaskCreate\<close> is FreeRTOS code. Its contract: it allocates the task and appends it
  to the kernel's tasks, stores the new handle through \<^verbatim>\<open>pxCreatedTask\<close> unless that is
  null, and returns \<^verbatim>\<open>pdPASS\<close>; when the memory cannot be allocated it creates nothing
  and returns \<^verbatim>\<open>errCOULD_NOT_ALLOCATE_REQUIRED_MEMORY\<close>.
\<close>

definition xTaskCreate ::
  "TaskFunction_t \<Rightarrow> string \<Rightarrow> 32 word \<Rightarrow> pointer \<Rightarrow> UBaseType_t \<Rightarrow> pointer \<Rightarrow>
   kernel \<Rightarrow> BaseType_t \<times> kernel" where
  "xTaskCreate code name depth param prio created k =
     (let k1 = k\<lparr>trace := trace k @ [Call_xTaskCreate name depth param prio created]\<rparr> in
      if heap_exhausted k1 then (errCOULD_NOT_ALLOCATE_REQUIRED_MEMORY, k1)
      else
        (pdPASS,
         k1\<lparr>tasks := tasks k1 @
                [\<lparr>pvTaskCode = code, pcName = name, usStackDepth = depth,
                  pvParameters = param, uxPriority = prio\<rparr>],
             handles :=
               (case created of
                  nullptr \<Rightarrow> handles k1
                | Address a \<Rightarrow> (handles k1)(a \<mapsto> length (tasks k1)))\<rparr>))"

subsection \<open>The source\<close>

definition TAG :: string where
  "TAG = ''app''"

text \<open>
  The \<^verbatim>\<open>while (true)\<close> loop of the task: each iteration logs and then delays. The loop
  has no \<^verbatim>\<open>break\<close> and no \<^verbatim>\<open>return\<close>; leaving it would take the \<open>else\<close> branch of
  the loop condition.
\<close>

primrec task_loop :: "platform \<Rightarrow> nat \<Rightarrow> event list \<times> unit option" where
  "task_loop P 0 = ([], None)"
| "task_loop P (Suc n) =
     (if True then
        (case task_loop P n of
           (es, r) \<Rightarrow>
             (Call_ESP_LOGI TAG ''Hello from C++ FreeRTOS task''
                # Call_vTaskDelay (pdMS_TO_TICKS P 1000) # es, r))
      else ([], Some ()))"

text \<open>The lambda passed to \<^verbatim>\<open>xTaskCreate\<close>: it does not name its parameter.\<close>

definition task_lambda :: "platform \<Rightarrow> TaskFunction_t" where
  "task_lambda P = (\<lambda>_. task_loop P)"

text \<open>\<^verbatim>\<open>app_main\<close>: one call of \<^verbatim>\<open>xTaskCreate\<close>, whose result is dropped.\<close>

definition app_main :: "platform \<Rightarrow> kernel \<Rightarrow> kernel" where
  "app_main P k =
     snd (xTaskCreate (task_lambda P) ''blinker'' 4096 nullptr (tskIDLE_PRIORITY P + 1) nullptr k)"

subsection \<open>A concrete configuration\<close>

text \<open>
  A 100 Hz tick with the idle priority 0, and the kernel at the entry of \<^verbatim>\<open>app_main\<close>
  with no task of the program yet.
\<close>

definition esp32_platform :: platform where
  "esp32_platform = \<lparr>pdMS_TO_TICKS = (\<lambda>ms. ms * 100 div 1000), tskIDLE_PRIORITY = 0\<rparr>"

definition boot :: "bool \<Rightarrow> kernel" where
  "boot exhausted =
     \<lparr>heap_exhausted = exhausted, tasks = [], handles = Map.empty, trace = []\<rparr>"


section \<open>Properties\<close>

subsection \<open>The task loop\<close>

lemma task_loop_unfold:
  "task_loop P n =
     (concat (replicate n
        [Call_ESP_LOGI ''app'' ''Hello from C++ FreeRTOS task'',
         Call_vTaskDelay (pdMS_TO_TICKS P 1000)]), None)"
  by (induction n) (simp_all add: TAG_def)

lemma length_concat_replicate_pair:
  "length (concat (replicate n [a, b])) = 2 * n"
  by (induction n) simp_all

lemma task_loop_prefix:
  "fst (task_loop P n) = take (2 * n) (fst (task_loop P (n + m)))"
  by (simp add: task_loop_unfold replicate_add length_concat_replicate_pair)

subsection \<open>The tick macro\<close>



subsection \<open>The kernel call\<close>

lemma xTaskCreate_trace:
  "trace (snd (xTaskCreate code name depth param prio created k)) =
     trace k @ [Call_xTaskCreate name depth param prio created]"
  by (simp add: xTaskCreate_def Let_def)

lemma xTaskCreate_fails:
  "heap_exhausted k \<Longrightarrow>
   xTaskCreate code name depth param prio created k =
     (errCOULD_NOT_ALLOCATE_REQUIRED_MEMORY,
      k\<lparr>trace := trace k @ [Call_xTaskCreate name depth param prio created]\<rparr>)"
  by (simp add: xTaskCreate_def Let_def)


subsection \<open>C1: what the program does\<close>




subsection \<open>C9: the result of the kernel call is dropped\<close>

text \<open>
  C9: \<^verbatim>\<open>app_main\<close> is the kernel call with its result dropped, so it returns the kernel
  the call leaves in every case, having made exactly that one call (no retry, no log
  call that would report an error). When the task cannot be allocated the call answers
  \<^verbatim>\<open>errCOULD_NOT_ALLOCATE_REQUIRED_MEMORY\<close>, and \<^verbatim>\<open>app_main\<close> leaves the kernel as it
  was but for the record of the call: no task has been created.
\<close>

theorem app_main_drops_result:
  "app_main P k =
     snd (xTaskCreate (task_lambda P) ''blinker'' 4096 nullptr (tskIDLE_PRIORITY P + 1) nullptr k) \<and>
   trace (app_main P k) =
     trace k @ [Call_xTaskCreate ''blinker'' 4096 nullptr (tskIDLE_PRIORITY P + 1) nullptr] \<and>
   (heap_exhausted k \<longrightarrow>
      fst (xTaskCreate (task_lambda P) ''blinker'' 4096 nullptr (tskIDLE_PRIORITY P + 1) nullptr k)
        = errCOULD_NOT_ALLOCATE_REQUIRED_MEMORY \<and>
      app_main P k =
        k\<lparr>trace := trace k @
             [Call_xTaskCreate ''blinker'' 4096 nullptr (tskIDLE_PRIORITY P + 1) nullptr]\<rparr> \<and>
      tasks (app_main P k) = tasks k)"
  by (simp add: app_main_def xTaskCreate_trace xTaskCreate_fails)

theorem app_main_drops_result_witness:
  "heap_exhausted (boot True) \<and>
   app_main esp32_platform (boot True) =
     \<lparr>heap_exhausted = True, tasks = [], handles = Map.empty,
      trace = [Call_xTaskCreate ''blinker'' 4096 nullptr 1 nullptr]\<rparr>"
proof -
  have h: "heap_exhausted (boot True)"
    by (simp add: boot_def)
  from app_main_drops_result [of esp32_platform "boot True"] h
  have "app_main esp32_platform (boot True) =
          (boot True)\<lparr>trace := trace (boot True) @
             [Call_xTaskCreate ''blinker'' 4096 nullptr
                (tskIDLE_PRIORITY esp32_platform + 1) nullptr]\<rparr>"
    by blast
  with h show ?thesis
    by (simp add: boot_def esp32_platform_def)
qed

subsection \<open>C10: the task does not depend on its parameter\<close>

text \<open>
  C10: the task is created with a null parameter, and its behaviour does not depend on
  the parameter at all. Run with any two arguments \<open>a\<close> and \<open>b\<close> for the same number of
  iterations it does the same; every iteration is the log call with tag ``app'' and
  message ``Hello from C++ FreeRTOS task'' followed by the delay of
  \<^verbatim>\<open>pdMS_TO_TICKS(1000)\<close> ticks; and of two runs of different lengths the shorter one is
  the beginning of the longer one.
\<close>

theorem task_lambda_ignores_parameter:
  "task_lambda P a n = task_lambda P b n \<and>
   task_lambda P a n =
     (concat (replicate n
        [Call_ESP_LOGI ''app'' ''Hello from C++ FreeRTOS task'',
         Call_vTaskDelay (pdMS_TO_TICKS P 1000)]), None) \<and>
   fst (task_lambda P a n) = take (2 * n) (fst (task_lambda P b (n + m))) \<and>
   last (trace (app_main P k)) =
     Call_xTaskCreate ''blinker'' 4096 nullptr (tskIDLE_PRIORITY P + 1) nullptr"
  unfolding task_lambda_def app_main_def
  using task_loop_prefix [of P n m]
  by (simp add: task_loop_unfold xTaskCreate_trace)

end
